theory Spec2Isabelle
  imports Main "HOL-Library.AList"
begin

section \<open>Python values\<close>

text \<open>
  The calendar platform (\<^verbatim>\<open>calendar.py\<close>) and the nested-dictionary helpers
  (\<^verbatim>\<open>utils.py\<close>) work on dictionaries with string keys whose values are untyped
  (\<^verbatim>\<open>dict[str, Any]\<close>). The values that occur are \<^verbatim>\<open>None\<close>, integers, strings,
  \<^verbatim>\<open>datetime.datetime\<close>, \<^verbatim>\<open>datetime.time\<close> and nested dictionaries.

  A dictionary is an association list read with \<open>map_of\<close> and written with
  \<open>AList.update\<close> (an existing key keeps its position, a new key goes to the end, as
  in Python). Dictionary values are finite trees: a dictionary that contains itself is
  outside the model.

  A \<^verbatim>\<open>datetime.datetime\<close> is modelled without time zone (naive wall-clock time);
  for such values Python's \<^verbatim>\<open>==\<close> is equality of the seven fields.
\<close>

datatype time = Time (t_hour: nat) (t_minute: nat) (t_second: nat) (t_microsecond: nat)

record datetime =
  year :: nat
  month :: nat
  day :: nat
  hour :: nat
  minute :: nat
  second :: nat
  microsecond :: nat

datatype pyval =
    PNone
  | PInt int
  | PStr string
  | PDatetime datetime
  | PTime time
  | PDict "(string \<times> pyval) list"

type_synonym pydict = "(string \<times> pyval) list"

text \<open>
  Exceptions are values. \<open>Invalid\<close> is \<^verbatim>\<open>vol.Invalid\<close> with its message,
  \<open>SchemaError\<close> the error of the field stage of the event schema with the list of
  its findings, \<open>RoborockException\<close> the vendor library's device or communication
  error, \<open>HomeAssistantError\<close> the host's error; the others are Python's built-in
  exceptions.
\<close>

datatype issue =
    required_key_not_provided string
  | extra_keys_not_allowed string
  | invalid_value string string

datatype error =
    Invalid string
  | SchemaError "issue list"
  | RoborockException
  | HomeAssistantError
  | AttributeError
  | TypeError
  | KeyError

text \<open>Python's truth value of an object, as \<^verbatim>\<open>if x\<close> and \<^verbatim>\<open>x and y\<close> test it.\<close>

fun truthy :: "pyval \<Rightarrow> bool" where
  "truthy PNone = False"
| "truthy (PInt i) = (i \<noteq> 0)"
| "truthy (PStr s) = (s \<noteq> [])"
| "truthy (PDatetime d) = True"
| "truthy (PTime t) = True"
| "truthy (PDict m) = (m \<noteq> [])"

text \<open>\<^verbatim>\<open>obj.get(key)\<close>: the value, or \<^verbatim>\<open>None\<close> for an absent key.\<close>

definition dict_get :: "pydict \<Rightarrow> string \<Rightarrow> pyval" where
  "dict_get obj k = (case map_of obj k of None \<Rightarrow> PNone | Some v \<Rightarrow> v)"

text \<open>
  \<^verbatim>\<open>"%0wd" % n\<close>: decimal digits, padded with zeros to at least \<open>w\<close> characters.
\<close>

function format_d :: "nat \<Rightarrow> nat \<Rightarrow> string" where
  "format_d w n =
     (if w \<le> 1 \<and> n < 10 then [''0123456789'' ! n]
      else format_d (w - 1) (n div 10) @ [''0123456789'' ! (n mod 10)])"
  by pat_completeness auto
termination
  by (relation "measure (\<lambda>(w, n). w + n)") auto

text \<open>
  \<^verbatim>\<open>str(d)\<close> of a naive datetime, which an f-string applies to \<^verbatim>\<open>{d}\<close>:
  \<^verbatim>\<open>YYYY-MM-DD HH:MM:SS\<close>, followed by \<^verbatim>\<open>.ffffff\<close> when the microseconds are not zero.
\<close>

definition str_datetime :: "datetime \<Rightarrow> string" where
  "str_datetime d =
     format_d 4 (year d) @ ''-'' @ format_d 2 (month d) @ ''-'' @ format_d 2 (day d)
     @ '' '' @ format_d 2 (hour d) @ '':'' @ format_d 2 (minute d) @ '':''
     @ format_d 2 (second d)
     @ (if microsecond d = 0 then [] else ''.'' @ format_d 6 (microsecond d))"


section \<open>utils.py: nested dictionaries\<close>

text \<open>
  \<^verbatim>\<open>key_string.split(".")\<close>: the pieces between the separators; never the empty list
  (the empty string gives one empty piece).
\<close>

fun split_sep :: "char \<Rightarrow> string \<Rightarrow> string list" where
  "split_sep sep [] = [[]]"
| "split_sep sep (c # cs) =
     (if c = sep then [] # split_sep sep cs
      else (case split_sep sep cs of
              w # ws \<Rightarrow> (c # w) # ws
            | [] \<Rightarrow> [[c]]))"

text \<open>
  \<^verbatim>\<open>set_nested_dict\<close> walks \<^verbatim>\<open>keys[:-1]\<close> with
  \<^verbatim>\<open>here = here.setdefault(key, {})\<close> and then assigns \<^verbatim>\<open>here[keys[-1]] = value\<close>,
  all in place. \<open>set_keys here ks final v\<close> is the dictionary \<open>here\<close> after the walk
  along \<open>ks\<close> and the assignment at \<open>final\<close>. \<^verbatim>\<open>setdefault\<close> returns an existing
  value whatever it is; when that value is not a dictionary the next step raises:
  \<^verbatim>\<open>AttributeError\<close> when the next step is another \<^verbatim>\<open>setdefault\<close>,
  \<^verbatim>\<open>TypeError\<close> when it is the final assignment. Such a value is met before any key
  has been inserted (below an inserted key everything is new and a dictionary), so an
  error leaves the data as it was.
\<close>

fun set_keys :: "pydict \<Rightarrow> string list \<Rightarrow> string \<Rightarrow> pyval \<Rightarrow> error + pydict" where
  "set_keys here [] final v = Inr (AList.update final v here)"
| "set_keys here (k # ks) final v =
     (case map_of here k of
        None \<Rightarrow>
          (case set_keys [] ks final v of
             Inl e \<Rightarrow> Inl e
           | Inr child \<Rightarrow> Inr (AList.update k (PDict child) here))
      | Some (PDict child) \<Rightarrow>
          (case set_keys child ks final v of
             Inl e \<Rightarrow> Inl e
           | Inr child' \<Rightarrow> Inr (AList.update k (PDict child') here))
      | Some _ \<Rightarrow> Inl (if ks = [] then TypeError else AttributeError))"

definition set_nested_dict :: "pydict \<Rightarrow> string \<Rightarrow> pyval \<Rightarrow> error + pydict" where
  "set_nested_dict data key_string v =
     (let keys = split_sep CHR ''.'' key_string
      in set_keys data (butlast keys) (last keys) v)"

text \<open>
  \<^verbatim>\<open>get_nested_dict\<close>: \<^verbatim>\<open>here = here.get(key)\<close> for every key, returning the
  default as soon as \<^verbatim>\<open>here is None\<close>. \<^verbatim>\<open>.get\<close> on a value that is neither a
  dictionary nor \<^verbatim>\<open>None\<close> raises \<^verbatim>\<open>AttributeError\<close>.
\<close>

fun get_keys :: "pyval \<Rightarrow> string list \<Rightarrow> pyval \<Rightarrow> error + pyval" where
  "get_keys here [] dflt = Inr here"
| "get_keys here (k # ks) dflt =
     (case here of
        PDict m \<Rightarrow>
          (case map_of m k of
             None \<Rightarrow> Inr dflt
           | Some PNone \<Rightarrow> Inr dflt
           | Some child \<Rightarrow> get_keys child ks dflt)
      | _ \<Rightarrow> Inl AttributeError)"

definition get_nested_dict :: "pydict \<Rightarrow> string \<Rightarrow> pyval \<Rightarrow> error + pyval" where
  "get_nested_dict data key_string dflt =
     get_keys (PDict data) (split_sep CHR ''.'' key_string) dflt"

text \<open>
  Two ways of reading a key path against a dictionary, used to state properties.
  \<open>path_free m ks\<close>: walking \<open>ks\<close> from \<open>m\<close>, every key maps to nothing (the rest of
  the path is then free) or to a nested dictionary. \<open>descend m ks\<close>: the dictionary
  reached when every key of \<open>ks\<close> maps to a nested dictionary.
\<close>

fun path_free :: "pydict \<Rightarrow> string list \<Rightarrow> bool" where
  "path_free m [] = True"
| "path_free m (k # ks) =
     (case map_of m k of
        None \<Rightarrow> True
      | Some (PDict child) \<Rightarrow> path_free child ks
      | Some _ \<Rightarrow> False)"

fun descend :: "pydict \<Rightarrow> string list \<Rightarrow> pydict option" where
  "descend m [] = Some m"
| "descend m (k # ks) =
     (case map_of m k of
        Some (PDict child) \<Rightarrow> descend child ks
      | _ \<Rightarrow> None)"

section \<open>calendar.py: timer kinds\<close>

text \<open>
  The vendor commands and timer classes that \<^verbatim>\<open>VACUUM_CALENDARS\<close> names, the
  description record (\<^verbatim>\<open>RoborockCalendarDescription\<close>, with the fields of the host's
  \<^verbatim>\<open>EntityDescription\<close> that the table sets) and the table itself, in its order.
\<close>

datatype RoborockCommand =
    GET_VALLEY_ELECTRICITY_TIMER
  | SET_VALLEY_ELECTRICITY_TIMER
  | CLOSE_VALLEY_ELECTRICITY_TIMER
  | GET_DND_TIMER
  | SET_DND_TIMER
  | CLOSE_DND_TIMER

datatype timer_class = ValleyElectricityTimer | DnDTimer

record RoborockCalendarDescription =
  key :: string
  name :: string
  translation_key :: string
  base_class :: timer_class
  get_command :: RoborockCommand
  update_command :: RoborockCommand
  delete_command :: RoborockCommand

definition VACUUM_CALENDARS :: "(string \<times> RoborockCalendarDescription) list" where
  "VACUUM_CALENDARS =
     [(''valley_electricity_timer'',
       \<lparr>key = ''valley_electricity_timer'',
        name = ''Valley Electricity'',
        translation_key = ''valley_electricity_timer'',
        base_class = ValleyElectricityTimer,
        get_command = GET_VALLEY_ELECTRICITY_TIMER,
        update_command = SET_VALLEY_ELECTRICITY_TIMER,
        delete_command = CLOSE_VALLEY_ELECTRICITY_TIMER\<rparr>),
      (''dnd_timer'',
       \<lparr>key = ''dnd_timer'',
        name = ''Do not disturb'',
        translation_key = ''dnd_timer'',
        base_class = DnDTimer,
        get_command = GET_DND_TIMER,
        update_command = SET_DND_TIMER,
        delete_command = CLOSE_DND_TIMER\<rparr>)]"


section \<open>calendar.py: what the platform takes from outside\<close>

text \<open>
  \<^verbatim>\<open>calendar.py\<close> calls into the host runtime, the schema library and the vendor
  library, and imports one constant of the integration's own \<^verbatim>\<open>const\<close> module. None of
  them is among the sources, so they are parameters of the model, one field each:
  the host's coercers \<^verbatim>\<open>cv.datetime\<close> and \<^verbatim>\<open>cv.string\<close> (the coerced value, or
  the message of the \<^verbatim>\<open>vol.Invalid\<close> they raise), the host's
  \<^verbatim>\<open>ENTITY_SERVICE_FIELDS\<close> (optional keys with their validators), the vendor's
  \<^verbatim>\<open>parse_datetime_to_roborock_datetime\<close>, the list \<^verbatim>\<open>MODELS_VACUUM_WITH_MOP\<close>,
  the host's \<^verbatim>\<open>slugify\<close>, and the constructor of the host's \<^verbatim>\<open>CalendarEvent\<close>.

  \<^verbatim>\<open>CalendarEvent\<close> is the host's event class, here a record of the keyword arguments
  the entity passes (\<open>end'\<close> is the argument \<^verbatim>\<open>end\<close>). The start and the end are
  untyped values: the entity passes what the timer holds. The constructor is the host's
  code and may reject its arguments: \<open>new_CalendarEvent\<close> gives the event it builds,
  or the error it raises.
\<close>

record CalendarEvent =
  start :: pyval
  end' :: pyval
  summary :: string
  description :: string
  location :: string
  recurrence_id :: string
  rrule :: string
  uid :: string

record host =
  cv_datetime :: "pyval \<Rightarrow> string + datetime"
  cv_string :: "pyval \<Rightarrow> string + string"
  ENTITY_SERVICE_FIELDS :: "(string \<times> (pyval \<Rightarrow> string + pyval)) list"
  parse_datetime_to_roborock_datetime :: "datetime \<Rightarrow> datetime \<Rightarrow> datetime \<times> datetime"
  MODELS_VACUUM_WITH_MOP :: "string list"
  slugify :: "string \<Rightarrow> string"
  new_CalendarEvent :: "CalendarEvent \<Rightarrow> error + CalendarEvent"


section \<open>calendar.py: the interval validator\<close>

text \<open>
  \<^verbatim>\<open>_has_roborock_interval(start_key, end_key)\<close> returns the closure \<^verbatim>\<open>validate\<close>.
  The canonicalization function is its first argument here. \<^verbatim>\<open>validate\<close> reads both
  keys with \<^verbatim>\<open>obj.get\<close>; when either value is absent or falsy it returns the object;
  otherwise it canonicalizes the pair and compares, start first. The canonicalization is
  defined on datetimes: a truthy value of another type makes the model raise
  \<^verbatim>\<open>TypeError\<close> (in the program the field stage of the schema runs first, so only
  datetimes arrive here).
\<close>

definition validate ::
  "(datetime \<Rightarrow> datetime \<Rightarrow> datetime \<times> datetime) \<Rightarrow> string \<Rightarrow> string \<Rightarrow> pydict
     \<Rightarrow> error + pydict" where
  "validate parse start_key end_key obj =
     (let start_time = dict_get obj start_key in
      if truthy start_time then
        (let end_time = dict_get obj end_key in
         if truthy end_time then
           (case (start_time, end_time) of
              (PDatetime s, PDatetime e) \<Rightarrow>
                (case parse s e of
                   (parsed_start_time, parsed_end_time) \<Rightarrow>
                     if parsed_start_time \<noteq> s then
                       Inl (Invalid (''Unexpected start datetime '' @ str_datetime s
                              @ '' use '' @ str_datetime parsed_start_time @ '' instead''))
                     else if parsed_end_time \<noteq> e then
                       Inl (Invalid (''Unexpected end datetime '' @ str_datetime e
                              @ '' use '' @ str_datetime parsed_end_time @ '' instead''))
                     else Inr obj)
            | _ \<Rightarrow> Inl TypeError)
         else Inr obj)
      else Inr obj)"

definition has_roborock_interval ::
  "(datetime \<Rightarrow> datetime \<Rightarrow> datetime \<times> datetime) \<Rightarrow> string \<Rightarrow> string \<Rightarrow> pydict
     \<Rightarrow> error + pydict" where
  "has_roborock_interval parse start_key end_key = validate parse start_key end_key"

text \<open>
  Modelled from the spec: the vendor's \<^verbatim>\<open>parse_datetime_to_roborock_datetime\<close> is not
  among the sources. The spec describes the canonical form as minute granularity and the
  value suggested to the caller as the input truncated to whole minutes, so this
  canonicalization clears the seconds and microseconds of both datetimes and changes
  nothing else.
\<close>

definition minute_granularity :: "datetime \<Rightarrow> datetime \<Rightarrow> datetime \<times> datetime" where
  "minute_granularity start_datetime end_datetime =
     (start_datetime\<lparr>second := 0, microsecond := 0\<rparr>,
      end_datetime\<lparr>second := 0, microsecond := 0\<rparr>)"


section \<open>calendar.py: the event schema\<close>

text \<open>
  Modelled from the spec: the host's field-name constants are not among the sources.
  \<^verbatim>\<open>dtstart\<close> and \<^verbatim>\<open>dtend\<close> are the keys the update service of
  \<^verbatim>\<open>calendar.py\<close> writes for start and end; the others are the spec's field names.
\<close>

definition EVENT_START :: string where "EVENT_START = ''dtstart''"

definition EVENT_END :: string where "EVENT_END = ''dtend''"

definition EVENT_SUMMARY :: string where "EVENT_SUMMARY = ''summary''"

definition EVENT_DESCRIPTION :: string where "EVENT_DESCRIPTION = ''description''"

definition EVENT_LOCATION :: string where "EVENT_LOCATION = ''location''"

definition EVENT_RRULE :: string where "EVENT_RRULE = ''rrule''"

text \<open>
  Modelled from the spec: the schema library is not among the sources. The field stage
  of the event schema (the dictionary in \<^verbatim>\<open>vol.All\<close>) rejects a payload that fails
  required-field presence or type coercion with a schema error, before the interval
  validator is reached. Here it applies to every item of the payload the validator the
  dictionary literal gives its key (the entries of \<^verbatim>\<open>**ENTITY_SERVICE_FIELDS\<close> come
  last in the literal, so they win on a shared key), reports a key the literal does not
  have, reports the required keys that are absent, and on no finding returns the items
  with their coerced values.
\<close>

definition field_validator :: "host \<Rightarrow> string \<Rightarrow> (pyval \<Rightarrow> string + pyval) option" where
  "field_validator h k =
     (case map_of (ENTITY_SERVICE_FIELDS h) k of
        Some f \<Rightarrow> Some f
      | None \<Rightarrow>
          if k = EVENT_START \<or> k = EVENT_END
          then Some (\<lambda>v. map_sum id PDatetime (cv_datetime h v))
          else if k = EVENT_SUMMARY \<or> k = EVENT_DESCRIPTION \<or> k = EVENT_LOCATION
                  \<or> k = EVENT_RRULE
          then Some (\<lambda>v. map_sum id PStr (cv_string h v))
          else None)"

fun validate_items :: "host \<Rightarrow> pydict \<Rightarrow> issue list \<times> pydict" where
  "validate_items h [] = ([], [])"
| "validate_items h ((k, v) # rest) =
     (case validate_items h rest of
        (issues, out) \<Rightarrow>
          (case field_validator h k of
             None \<Rightarrow> (extra_keys_not_allowed k # issues, out)
           | Some f \<Rightarrow>
               (case f v of
                  Inl msg \<Rightarrow> (invalid_value k msg # issues, out)
                | Inr v' \<Rightarrow> (issues, (k, v') # out))))"

definition required_keys :: "string list" where
  "required_keys = [EVENT_START, EVENT_END, EVENT_SUMMARY]"

definition event_fields :: "host \<Rightarrow> pydict \<Rightarrow> error + pydict" where
  "event_fields h event_in =
     (case validate_items h event_in of
        (issues, out) \<Rightarrow>
          (let missing = map required_key_not_provided
                 (filter (\<lambda>k. map_of event_in k = None) required_keys)
           in if issues @ missing = [] then Inr out
              else Inl (SchemaError (issues @ missing))))"

text \<open>
  \<^verbatim>\<open>EVENT_SCHEMA\<close> is \<^verbatim>\<open>vol.Schema(vol.All({...}, _has_roborock_interval(...)))\<close>:
  the field stage, and on its result the interval validator with the vendor's
  canonicalization.
\<close>

definition EVENT_SCHEMA :: "host \<Rightarrow> pydict \<Rightarrow> error + pydict" where
  "EVENT_SCHEMA h event_in =
     (case event_fields h event_in of
        Inl e \<Rightarrow> Inl e
      | Inr out \<Rightarrow>
          has_roborock_interval (parse_datetime_to_roborock_datetime h)
            EVENT_START EVENT_END out)"


section \<open>calendar.py: the device transport\<close>

text \<open>
  A remote timer (\<^verbatim>\<open>RoborockBaseTimer\<close>) has an enabled flag and two times of day.
  \<^verbatim>\<open>coordinator.api.send_command(command, params, return_type)\<close> is one remote
  command: the log of the commands sent grows by the call, and the device answers with a
  timer, with \<^verbatim>\<open>None\<close>, or with an exception. The answer is a function of the call (the
  field \<open>api\<close> of the coordinator). \<^verbatim>\<open>coordinator.data\<close> is the device information or
  \<^verbatim>\<open>None\<close>; of the device information the model keeps the model name and the device
  identifier (\<^verbatim>\<open>device_info.device.duid\<close>).
\<close>

record RoborockBaseTimer =
  enabled :: bool
  start_time :: time
  end_time :: time

record call =
  command :: RoborockCommand
  params :: "nat list option"
  return_type :: timer_class

record device_info =
  model :: string
  duid :: string

record coordinator =
  data :: "device_info option"
  api :: "call \<Rightarrow> error + RoborockBaseTimer option"

type_synonym sent = "call list"

definition send_command ::
  "coordinator \<Rightarrow> RoborockCommand \<Rightarrow> nat list option \<Rightarrow> timer_class \<Rightarrow> sent
     \<Rightarrow> (error + RoborockBaseTimer option) \<times> sent" where
  "send_command c cmd ps rt log =
     (let q = \<lparr>command = cmd, params = ps, return_type = rt\<rparr>
      in (api c q, log @ [q]))"


section \<open>calendar.py: the calendar entity\<close>

text \<open>
  \<^verbatim>\<open>RoborockCalendar\<close> with the attributes its methods read; \<open>event_value\<close> is the
  attribute \<^verbatim>\<open>_event_value\<close>.
\<close>

record RoborockCalendar =
  unique_id :: string
  device_info :: device_info
  coordinator :: coordinator
  entity_description :: RoborockCalendarDescription
  event_value :: "RoborockBaseTimer option"

definition init_RoborockCalendar ::
  "string \<Rightarrow> device_info \<Rightarrow> coordinator \<Rightarrow> RoborockCalendarDescription
     \<Rightarrow> RoborockBaseTimer \<Rightarrow> RoborockCalendar" where
  "init_RoborockCalendar uniq info c d initial_event_value =
     \<lparr>unique_id = uniq,
      device_info = info,
      coordinator = c,
      entity_description = d,
      event_value = Some initial_event_value\<rparr>"

text \<open>
  Modelled from the spec: \<^verbatim>\<open>self.send\<close> is a method of the integration's base entity
  (\<^verbatim>\<open>device.py\<close>), which is not among the sources. The spec's remote command invocation
  \<^verbatim>\<open>send(command_id, args, decode_as)\<close> issues the command on the device transport and
  fails with a device or communication error; here it is one \<open>send_command\<close> of the
  entity's coordinator.
\<close>

definition send ::
  "RoborockCalendar \<Rightarrow> RoborockCommand \<Rightarrow> nat list option \<Rightarrow> timer_class \<Rightarrow> sent
     \<Rightarrow> (error + RoborockBaseTimer option) \<times> sent" where
  "send self cmd ps rt log = send_command (coordinator self) cmd ps rt log"

definition async_update :: "RoborockCalendar \<Rightarrow> sent \<Rightarrow> (error + RoborockCalendar) \<times> sent" where
  "async_update self log =
     (case send_command (coordinator self) (get_command (entity_description self)) None
             (base_class (entity_description self)) log of
        (Inl e, log') \<Rightarrow> (Inl e, log')
      | (Inr r, log') \<Rightarrow> (Inr (self\<lparr>event_value := r\<rparr>), log'))"

text \<open>
  The property \<^verbatim>\<open>event\<close>: \<^verbatim>\<open>CalendarEvent(...)\<close> when
  \<^verbatim>\<open>event_value and event_value.enabled\<close>, otherwise \<^verbatim>\<open>None\<close>. A timer object is
  truthy. The constructor is called only in the first case, with the timer's start and
  end times (times of day) as they are; an error it raises leaves the property.
\<close>

definition event :: "host \<Rightarrow> RoborockCalendar \<Rightarrow> error + CalendarEvent option" where
  "event h self =
     (case event_value self of
        None \<Rightarrow> Inr None
      | Some ev \<Rightarrow>
          if enabled ev then
            (case new_CalendarEvent h
                    \<lparr>start = PTime (start_time ev),
                     end' = PTime (end_time ev),
                     summary = name (entity_description self),
                     description = name (entity_description self),
                     location = ''Home'',
                     recurrence_id = key (entity_description self),
                     rrule = ''FREQ=DAILY'',
                     uid = key (entity_description self)\<rparr> of
               Inl e \<Rightarrow> Inl e
             | Inr ce \<Rightarrow> Inr (Some ce))
          else Inr None)"

text \<open>
  \<^verbatim>\<open>[self.event] if self.event else []\<close>: the property is read for the test and, when
  it gave an event (an event object is truthy), once more for the list. The constructor
  is a function of its arguments, so both reads give the same and the model reads once.
  An error of the property leaves the method.
\<close>

definition async_get_events ::
  "host \<Rightarrow> RoborockCalendar \<Rightarrow> 'hass \<Rightarrow> datetime \<Rightarrow> datetime
     \<Rightarrow> error + CalendarEvent list" where
  "async_get_events h self hass start_date end_date =
     (case event h self of
        Inl e \<Rightarrow> Inl e
      | Inr None \<Rightarrow> Inr []
      | Inr (Some ev) \<Rightarrow> Inr [ev])"

text \<open>
  The attributes \<^verbatim>\<open>.hour\<close> and \<^verbatim>\<open>.minute\<close>, which datetimes and times have, and the
  argument list \<^verbatim>\<open>[start_time.hour, start_time.minute, end_time.hour, end_time.minute]\<close>,
  evaluated from left to right.
\<close>

fun attr_hour :: "pyval \<Rightarrow> error + nat" where
  "attr_hour (PDatetime d) = Inr (hour d)"
| "attr_hour (PTime t) = Inr (t_hour t)"
| "attr_hour _ = Inl AttributeError"

fun attr_minute :: "pyval \<Rightarrow> error + nat" where
  "attr_minute (PDatetime d) = Inr (minute d)"
| "attr_minute (PTime t) = Inr (t_minute t)"
| "attr_minute _ = Inl AttributeError"

definition time_args :: "pyval \<Rightarrow> pyval \<Rightarrow> error + nat list" where
  "time_args start_v end_v =
     (case attr_hour start_v of Inl e \<Rightarrow> Inl e | Inr sh \<Rightarrow>
      case attr_minute start_v of Inl e \<Rightarrow> Inl e | Inr sm \<Rightarrow>
      case attr_hour end_v of Inl e \<Rightarrow> Inl e | Inr eh \<Rightarrow>
      case attr_minute end_v of Inl e \<Rightarrow> Inl e | Inr em \<Rightarrow>
      Inr [sh, sm, eh, em])"

text \<open>
  \<^verbatim>\<open>async_update_event\<close>: the schema first; its exception leaves the method before
  anything is sent. \<^verbatim>\<open>valid_event[key]\<close> raises \<^verbatim>\<open>KeyError\<close> on an absent key.
\<close>

definition async_update_event ::
  "host \<Rightarrow> RoborockCalendar \<Rightarrow> string \<Rightarrow> pydict \<Rightarrow> sent \<Rightarrow> (error + unit) \<times> sent" where
  "async_update_event h self uid_arg event_in log =
     (case EVENT_SCHEMA h event_in of
        Inl e \<Rightarrow> (Inl e, log)
      | Inr valid_event \<Rightarrow>
          (case map_of valid_event EVENT_START of
             None \<Rightarrow> (Inl KeyError, log)
           | Some start_v \<Rightarrow>
               (case map_of valid_event EVENT_END of
                  None \<Rightarrow> (Inl KeyError, log)
                | Some end_v \<Rightarrow>
                    (case time_args start_v end_v of
                       Inl e \<Rightarrow> (Inl e, log)
                     | Inr args \<Rightarrow>
                         (case send self (update_command (entity_description self))
                                 (Some args) (base_class (entity_description self)) log of
                            (Inl e, log') \<Rightarrow> (Inl e, log')
                          | (Inr r, log') \<Rightarrow> (Inr (), log'))))))"

definition async_create_event ::
  "host \<Rightarrow> RoborockCalendar \<Rightarrow> pydict \<Rightarrow> sent \<Rightarrow> (error + unit) \<times> sent" where
  "async_create_event h self kwargs log =
     async_update_event h self (key (entity_description self)) kwargs log"

definition async_delete_event ::
  "RoborockCalendar \<Rightarrow> string \<Rightarrow> sent \<Rightarrow> (error + unit) \<times> sent" where
  "async_delete_event self uid_arg log =
     (case send self (delete_command (entity_description self)) None
             (base_class (entity_description self)) log of
        (Inl e, log') \<Rightarrow> (Inl e, log')
      | (Inr r, log') \<Rightarrow> (Inr (), log'))"

definition async_delete_event_service ::
  "RoborockCalendar \<Rightarrow> sent \<Rightarrow> (error + unit) \<times> sent" where
  "async_delete_event_service self log =
     async_delete_event self (key (entity_description self)) log"

definition async_update_event_service ::
  "host \<Rightarrow> RoborockCalendar \<Rightarrow> time \<Rightarrow> time \<Rightarrow> sent \<Rightarrow> (error + unit) \<times> sent" where
  "async_update_event_service h self dtstart dtend log =
     async_update_event h self (key (entity_description self))
       [(''dtstart'', PTime dtstart), (''dtend'', PTime dtend)] log"


section \<open>calendar.py: setup\<close>

text \<open>
  \<^verbatim>\<open>with contextlib.suppress(RoborockException)\<close> around the fetch: that exception
  leaves \<^verbatim>\<open>initial_event_value\<close> at \<^verbatim>\<open>None\<close>, any other passes through.
\<close>

definition suppress_RoborockException ::
  "error + RoborockBaseTimer option \<Rightarrow> error + RoborockBaseTimer option" where
  "suppress_RoborockException r =
     (case r of
        Inl e \<Rightarrow> if e = RoborockException then Inr None else Inl e
      | Inr x \<Rightarrow> Inr x)"

text \<open>
  The inner loop of \<^verbatim>\<open>async_setup_entry\<close>, over \<^verbatim>\<open>sensors.items()\<close>: a fetch per
  timer kind; \<^verbatim>\<open>continue\<close> on \<^verbatim>\<open>None\<close>, otherwise a new entity is appended.
\<close>

fun add_calendars ::
  "coordinator \<Rightarrow> device_info \<Rightarrow> string \<Rightarrow> (string \<times> RoborockCalendarDescription) list
     \<Rightarrow> RoborockCalendar list \<Rightarrow> sent \<Rightarrow> (error + RoborockCalendar list) \<times> sent" where
  "add_calendars c info uniq [] entities log = (Inr entities, log)"
| "add_calendars c info uniq ((sensor, d) # rest) entities log =
     (case send_command c (get_command d) None (base_class d) log of
        (r, log') \<Rightarrow>
          (case suppress_RoborockException r of
             Inl e \<Rightarrow> (Inl e, log')
           | Inr None \<Rightarrow> add_calendars c info uniq rest entities log'
           | Inr (Some initial_event_value) \<Rightarrow>
               add_calendars c info uniq rest
                 (entities @
                    [init_RoborockCalendar (sensor @ ''_'' @ uniq) info c d
                       initial_event_value])
                 log'))"

text \<open>
  The outer loop, over the coordinators. \<^verbatim>\<open>device_info.model\<close> on \<^verbatim>\<open>None\<close> raises
  \<^verbatim>\<open>AttributeError\<close>, so the test \<^verbatim>\<open>if coordinator.data\<close> that follows is only
  reached with device information, which is truthy. A model outside
  \<^verbatim>\<open>MODELS_VACUUM_WITH_MOP\<close> executes \<^verbatim>\<open>return\<close>: the function ends without calling
  \<^verbatim>\<open>async_add_entities\<close> (the result \<open>Inr None\<close>). After the loop
  \<^verbatim>\<open>async_add_entities(entities)\<close> is called (the result \<open>Inr (Some entities)\<close>).
\<close>

fun setup_coordinators ::
  "host \<Rightarrow> coordinator list \<Rightarrow> RoborockCalendar list \<Rightarrow> sent
     \<Rightarrow> (error + RoborockCalendar list option) \<times> sent" where
  "setup_coordinators h [] entities log = (Inr (Some entities), log)"
| "setup_coordinators h (c # cs) entities log =
     (case data c of
        None \<Rightarrow> (Inl AttributeError, log)
      | Some info \<Rightarrow>
          if model info \<in> set (MODELS_VACUUM_WITH_MOP h) then
            (case add_calendars c info (slugify h (duid info)) VACUUM_CALENDARS entities log of
               (Inl e, log') \<Rightarrow> (Inl e, log')
             | (Inr entities', log') \<Rightarrow> setup_coordinators h cs entities' log')
          else (Inr None, log))"

definition async_setup_entry ::
  "host \<Rightarrow> coordinator list \<Rightarrow> sent \<Rightarrow> (error + RoborockCalendar list option) \<times> sent" where
  "async_setup_entry h coordinators log = setup_coordinators h coordinators [] log"


section \<open>A sample installation\<close>

text \<open>
  Concrete values for the examples below: a host that accepts datetimes and strings as
  they are and whose event constructor raises \<^verbatim>\<open>HomeAssistantError\<close> unless start
  and end are datetimes (the host's \<^verbatim>\<open>CalendarEvent\<close> takes dates or datetimes as
  start and end, and validates them); a device that has a do-not-disturb timer and
  raises on the valley electricity timer; a device that answers \<^verbatim>\<open>None\<close> to
  everything; a device of a model without mop; and the do-not-disturb calendar of the
  first device.
\<close>

definition example_host :: host where
  "example_host =
     \<lparr>cv_datetime = (\<lambda>v. case v of PDatetime d \<Rightarrow> Inr d | _ \<Rightarrow> Inl ''Invalid datetime''),
      cv_string = (\<lambda>v. case v of PStr s \<Rightarrow> Inr s | _ \<Rightarrow> Inl ''value should be a string''),
      ENTITY_SERVICE_FIELDS = [(''entity_id'', Inr)],
      parse_datetime_to_roborock_datetime = minute_granularity,
      MODELS_VACUUM_WITH_MOP = [''roborock.vacuum.a15''],
      slugify = (\<lambda>s. s),
      new_CalendarEvent =
        (\<lambda>a. case (start a, end' a) of
                (PDatetime s, PDatetime e) \<Rightarrow> Inr a
              | _ \<Rightarrow> Inl HomeAssistantError)\<rparr>"

definition example_info :: device_info where
  "example_info = \<lparr>model = ''roborock.vacuum.a15'', duid = ''abc''\<rparr>"

definition dnd_only_api :: "call \<Rightarrow> error + RoborockBaseTimer option" where
  "dnd_only_api q =
     (if command q = GET_DND_TIMER
      then Inr (Some \<lparr>enabled = True, start_time = Time 8 0 0 0, end_time = Time 8 30 0 0\<rparr>)
      else if command q = GET_VALLEY_ELECTRICITY_TIMER then Inl RoborockException
      else Inr None)"

definition example_coordinator :: coordinator where
  "example_coordinator = \<lparr>data = Some example_info, api = dnd_only_api\<rparr>"

definition silent_coordinator :: coordinator where
  "silent_coordinator = \<lparr>data = Some example_info, api = (\<lambda>q. Inr None)\<rparr>"

definition plain_coordinator :: coordinator where
  "plain_coordinator =
     \<lparr>data = Some \<lparr>model = ''roborock.vacuum.s5'', duid = ''xyz''\<rparr>, api = dnd_only_api\<rparr>"

definition dnd_description :: RoborockCalendarDescription where
  "dnd_description =
     \<lparr>key = ''dnd_timer'',
      name = ''Do not disturb'',
      translation_key = ''dnd_timer'',
      base_class = DnDTimer,
      get_command = GET_DND_TIMER,
      update_command = SET_DND_TIMER,
      delete_command = CLOSE_DND_TIMER\<rparr>"

definition example_calendar :: RoborockCalendar where
  "example_calendar =
     init_RoborockCalendar ''dnd_timer_abc'' example_info example_coordinator dnd_description
       \<lparr>enabled = True, start_time = Time 8 0 0 0, end_time = Time 8 30 0 0\<rparr>"

definition at_time :: "nat \<Rightarrow> nat \<Rightarrow> nat \<Rightarrow> datetime" where
  "at_time h m s =
     \<lparr>year = 2024, month = 5, day = 1, hour = h, minute = m, second = s, microsecond = 0\<rparr>"



section \<open>Properties of the nested-dictionary helpers\<close>

lemma split_sep_not_Nil: "split_sep sep s \<noteq> []"
  by (induction s) (auto split: list.splits)

lemma path_free_Nil: "path_free [] ks"
  by (cases ks) simp_all

lemma path_free_prefix: "path_free m (ks @ ks') \<Longrightarrow> path_free m ks"
  by (induction ks arbitrary: m) (auto split: option.splits pyval.splits)

lemma get_keys_last:
  assumes "v \<noteq> PNone"
  shows "get_keys (PDict (AList.update final v here)) [final] dflt = Inr v"
  using assms by (cases v) (simp_all add: update_conv')

lemma get_keys_step:
  "get_keys (PDict (AList.update k (PDict child) here)) (k # ks) dflt
     = get_keys (PDict child) ks dflt"
  by (simp add: update_conv')

lemma set_keys_get_keys:
  assumes "path_free here ks" and "v \<noteq> PNone"
  shows "\<exists>here'. set_keys here ks final v = Inr here'
           \<and> get_keys (PDict here') (ks @ [final]) dflt = Inr v"
  using assms(1)
proof (induction ks arbitrary: here)
  case Nil
  show ?case using get_keys_last [OF assms(2)] by simp
next
  case (Cons k ks)
  show ?case
  proof (cases "map_of here k")
    case None
    from Cons.IH [OF path_free_Nil] obtain child where
      c: "set_keys [] ks final v = Inr child"
         "get_keys (PDict child) (ks @ [final]) dflt = Inr v" by blast
    have "set_keys here (k # ks) final v = Inr (AList.update k (PDict child) here)"
      using None c(1) by simp
    moreover have "get_keys (PDict (AList.update k (PDict child) here)) ((k # ks) @ [final]) dflt
        = Inr v"
      using c(2) get_keys_step [of k child here "ks @ [final]" dflt] by simp
    ultimately show ?thesis by blast
  next
    case (Some x)
    with Cons.prems obtain sub where x: "x = PDict sub" and pf: "path_free sub ks"
      by (cases x) simp_all
    from Cons.IH [OF pf] obtain child where
      c: "set_keys sub ks final v = Inr child"
         "get_keys (PDict child) (ks @ [final]) dflt = Inr v" by blast
    have "set_keys here (k # ks) final v = Inr (AList.update k (PDict child) here)"
      using Some x c(1) by simp
    moreover have "get_keys (PDict (AList.update k (PDict child) here)) ((k # ks) @ [final]) dflt
        = Inr v"
      using c(2) get_keys_step [of k child here "ks @ [final]" dflt] by simp
    ultimately show ?thesis by blast
  qed
qed

lemma get_keys_default:
  assumes "descend m pre = Some h"
    and "map_of h k = None \<or> map_of h k = Some PNone"
  shows "get_keys (PDict m) (pre @ k # post) dflt = Inr dflt"
  using assms
proof (induction pre arbitrary: m)
  case Nil
  then show ?case by auto
next
  case (Cons a pre)
  from Cons.prems(1) obtain child where
    a: "map_of m a = Some (PDict child)" and d: "descend child pre = Some h"
    by (auto split: option.splits pyval.splits)
  from Cons.IH [OF d Cons.prems(2)] a show ?case by simp
qed

text \<open>
  Claim C10. Let \<open>p\<close> be a dotted key path and \<open>v\<close> a value other than \<^verbatim>\<open>None\<close>.
  If every key along \<open>p\<close> maps in \<open>m\<close> to nothing or to a nested dictionary, then
  \<^verbatim>\<open>set_nested_dict(m, p, v)\<close> succeeds and \<^verbatim>\<open>get_nested_dict\<close> on the updated
  dictionary returns \<open>v\<close> at \<open>p\<close>, whatever the default. And \<^verbatim>\<open>get_nested_dict(m, p, default)\<close>
  returns the default whenever a key along \<open>p\<close> is absent or maps to \<^verbatim>\<open>None\<close> in the
  dictionary the keys before it lead to.
\<close>

theorem set_nested_dict_get_nested_dict:
  "(path_free m (split_sep CHR ''.'' p) \<and> v \<noteq> PNone \<longrightarrow>
      (\<exists>m'. set_nested_dict m p v = Inr m'
          \<and> get_nested_dict m' p dflt = Inr v))
   \<and> (\<forall>pre k post h.
        split_sep CHR ''.'' p = pre @ k # post \<and> descend m pre = Some h
          \<and> (map_of h k = None \<or> map_of h k = Some PNone)
        \<longrightarrow> get_nested_dict m p dflt = Inr dflt)"
proof (intro conjI impI allI)
  assume a: "path_free m (split_sep CHR ''.'' p) \<and> v \<noteq> PNone"
  define keys where "keys = split_sep CHR ''.'' p"
  have ne: "keys \<noteq> []" unfolding keys_def by (rule split_sep_not_Nil)
  then have app: "butlast keys @ [last keys] = keys" by simp
  from a have "path_free m (butlast keys @ [last keys])"
    unfolding keys_def [symmetric] app by simp
  then have "path_free m (butlast keys)" by (rule path_free_prefix)
  from set_keys_get_keys [OF this, of v "last keys" dflt] a
  obtain m' where "set_keys m (butlast keys) (last keys) v = Inr m'"
    and "get_keys (PDict m') (butlast keys @ [last keys]) dflt = Inr v" by blast
  then show "\<exists>m'. set_nested_dict m p v = Inr m'
      \<and> get_nested_dict m' p dflt = Inr v"
    unfolding set_nested_dict_def get_nested_dict_def keys_def [symmetric] app
    by (simp add: Let_def)
next
  fix pre k post h
  assume "split_sep CHR ''.'' p = pre @ k # post \<and> descend m pre = Some h
      \<and> (map_of h k = None \<or> map_of h k = Some PNone)"
  then show "get_nested_dict m p dflt = Inr dflt"
    unfolding get_nested_dict_def using get_keys_default [of m pre h k post dflt] by simp
qed

theorem set_nested_dict_get_nested_dict_witness:
  "path_free [(''a'', PDict [(''x'', PInt 1)])] (split_sep CHR ''.'' ''a.b.c'')
   \<and> PInt 3 \<noteq> PNone
   \<and> set_nested_dict [(''a'', PDict [(''x'', PInt 1)])] ''a.b.c'' (PInt 3)
       = Inr [(''a'', PDict [(''x'', PInt 1), (''b'', PDict [(''c'', PInt 3)])])]
   \<and> get_nested_dict [(''a'', PDict [(''x'', PInt 1), (''b'', PDict [(''c'', PInt 3)])])]
        ''a.b.c'' PNone = Inr (PInt 3)
   \<and> split_sep CHR ''.'' ''a.b.c'' = [''a''] @ ''b'' # [''c'']
   \<and> descend [(''a'', PDict [(''x'', PInt 1)])] [''a''] = Some [(''x'', PInt 1)]
   \<and> map_of [(''x'', PInt 1)] ''b'' = None
   \<and> get_nested_dict [(''a'', PDict [(''x'', PInt 1)])] ''a.b.c'' (PStr ''none'')
       = Inr (PStr ''none'')"
  using set_nested_dict_get_nested_dict
    [of "[(''a'', PDict [(''x'', PInt 1)])]" "''a.b.c''" "PInt 3" "PStr ''none''"]
  by (simp add: set_nested_dict_def get_nested_dict_def)

section \<open>Properties of the interval validator\<close>

lemmas example_defs = example_host_def example_info_def dnd_only_api_def
  example_coordinator_def silent_coordinator_def plain_coordinator_def dnd_description_def
  example_calendar_def
  at_time_def init_RoborockCalendar_def minute_granularity_def
  EVENT_START_def EVENT_END_def EVENT_SUMMARY_def EVENT_DESCRIPTION_def EVENT_LOCATION_def
  EVENT_RRULE_def

lemma dict_get_Some: "map_of obj k = Some v \<Longrightarrow> dict_get obj k = v"
  by (simp add: dict_get_def)

lemma minute_granularity_fixed:
  "minute_granularity s e = (s, e) \<longleftrightarrow>
     second s = 0 \<and> microsecond s = 0 \<and> second e = 0 \<and> microsecond e = 0"
  by (cases s; cases e) (auto simp: minute_granularity_def)

text \<open>
  Claim C1. When the object holds datetimes at its start and end keys and the pair is
  already in canonical form, that is, the canonicalization function returns the pair
  as it is (for the canonicalization to whole minutes: both have no seconds and no
  microseconds, \<open>minute_granularity_fixed\<close>), the interval validator succeeds and
  returns the input object unchanged, start and end included. This holds for every
  canonicalization function.
\<close>

theorem validate_canonical:
  assumes "map_of obj start_key = Some (PDatetime s)"
    and "map_of obj end_key = Some (PDatetime e)"
    and "parse s e = (s, e)"
  shows "validate parse start_key end_key obj = Inr obj"
  using assms by (simp add: validate_def dict_get_Some)

theorem validate_canonical_witness:
  "map_of [(''dtstart'', PDatetime (at_time 22 15 0)), (''dtend'', PDatetime (at_time 6 5 0))]
      ''dtstart'' = Some (PDatetime (at_time 22 15 0))
   \<and> map_of [(''dtstart'', PDatetime (at_time 22 15 0)), (''dtend'', PDatetime (at_time 6 5 0))]
      ''dtend'' = Some (PDatetime (at_time 6 5 0))
   \<and> minute_granularity (at_time 22 15 0) (at_time 6 5 0) = (at_time 22 15 0, at_time 6 5 0)
   \<and> validate minute_granularity ''dtstart'' ''dtend''
        [(''dtstart'', PDatetime (at_time 22 15 0)), (''dtend'', PDatetime (at_time 6 5 0))]
      = Inr [(''dtstart'', PDatetime (at_time 22 15 0)), (''dtend'', PDatetime (at_time 6 5 0))]"
  using validate_canonical [of
      "[(''dtstart'', PDatetime (at_time 22 15 0)), (''dtend'', PDatetime (at_time 6 5 0))]"
      "''dtstart''" "at_time 22 15 0" "''dtend''" "at_time 6 5 0" minute_granularity]
  by (simp add: minute_granularity_def at_time_def)

text \<open>
  Claim C7. When the start key or the end key is absent from the object, the interval
  validator does not canonicalize anything and succeeds, returning the object unchanged.
\<close>

theorem validate_absent:
  assumes "map_of obj start_key = None \<or> map_of obj end_key = None"
  shows "validate parse start_key end_key obj = Inr obj"
  using assms by (auto simp: validate_def dict_get_def Let_def)

theorem validate_absent_witness:
  "map_of [(''dtend'', PDatetime (at_time 6 5 7))] ''dtstart'' = None
   \<and> validate minute_granularity ''dtstart'' ''dtend'' [(''dtend'', PDatetime (at_time 6 5 7))]
     = Inr [(''dtend'', PDatetime (at_time 6 5 7))]"
  using validate_absent [of "[(''dtend'', PDatetime (at_time 6 5 7))]" "''dtstart''" "''dtend''"
      minute_granularity]
  by simp

text \<open>
  For every canonicalization function: when it changes the pair, the validator raises
  \<^verbatim>\<open>vol.Invalid\<close>; the message names start when the start differs and end otherwise,
  and holds the rejected value and the value the function returned for it.
\<close>

lemma validate_mismatch:
  assumes "map_of obj start_key = Some (PDatetime s)"
    and "map_of obj end_key = Some (PDatetime e)"
    and "parse s e = (ps, pe)"
    and "(ps, pe) \<noteq> (s, e)"
  shows "validate parse start_key end_key obj =
     Inl (Invalid (if ps \<noteq> s
        then ''Unexpected start datetime '' @ str_datetime s @ '' use ''
               @ str_datetime ps @ '' instead''
        else ''Unexpected end datetime '' @ str_datetime e @ '' use ''
               @ str_datetime pe @ '' instead''))"
  using assms by (auto simp: validate_def dict_get_Some)

text \<open>
  Claim C2. With the canonicalization to whole minutes: when the start or the end
  differs from its canonical form, the interval validator fails with \<^verbatim>\<open>vol.Invalid\<close>.
  The message names the start when the start differs, and the end otherwise; it holds
  the rejected value as the caller gave it and the value to use instead, which is the
  rejected value with its seconds and microseconds cleared.
\<close>

theorem validate_rejects:
  assumes "map_of obj start_key = Some (PDatetime s)"
    and "map_of obj end_key = Some (PDatetime e)"
    and "fst (minute_granularity s e) \<noteq> s \<or> snd (minute_granularity s e) \<noteq> e"
  shows "validate minute_granularity start_key end_key obj =
     Inl (Invalid (if fst (minute_granularity s e) \<noteq> s
        then ''Unexpected start datetime '' @ str_datetime s @ '' use ''
               @ str_datetime (s\<lparr>second := 0, microsecond := 0\<rparr>) @ '' instead''
        else ''Unexpected end datetime '' @ str_datetime e @ '' use ''
               @ str_datetime (e\<lparr>second := 0, microsecond := 0\<rparr>) @ '' instead''))"
  using assms validate_mismatch [OF assms(1,2), of minute_granularity
      "s\<lparr>second := 0, microsecond := 0\<rparr>" "e\<lparr>second := 0, microsecond := 0\<rparr>"]
  by (auto simp: minute_granularity_def)

theorem validate_rejects_witness:
  "validate minute_granularity ''dtstart'' ''dtend''
     [(''dtstart'', PDatetime (at_time 22 15 30)), (''dtend'', PDatetime (at_time 6 5 0))]
   = Inl (Invalid
       ''Unexpected start datetime 2024-05-01 22:15:30 use 2024-05-01 22:15:00 instead'')
   \<and> validate minute_granularity ''dtstart'' ''dtend''
     [(''dtstart'', PDatetime (at_time 22 15 0)), (''dtend'', PDatetime (at_time 6 5 7))]
   = Inl (Invalid
       ''Unexpected end datetime 2024-05-01 06:05:07 use 2024-05-01 06:05:00 instead'')"
  using validate_rejects [of
      "[(''dtstart'', PDatetime (at_time 22 15 30)), (''dtend'', PDatetime (at_time 6 5 0))]"
      "''dtstart''" "at_time 22 15 30" "''dtend''" "at_time 6 5 0"]
    validate_rejects [of
      "[(''dtstart'', PDatetime (at_time 22 15 0)), (''dtend'', PDatetime (at_time 6 5 7))]"
      "''dtstart''" "at_time 22 15 0" "''dtend''" "at_time 6 5 7"]
  by (simp add: example_defs str_datetime_def)


section \<open>Properties of the event schema and of updates\<close>

lemma validate_Inr: "validate parse start_key end_key obj = Inr r \<Longrightarrow> r = obj"
  by (auto simp: validate_def Let_def split: if_splits pyval.splits prod.splits)

lemma validate_items_lookup:
  assumes "validate_items h ev = ([], out)" and "map_of ev k = Some v"
  shows "\<exists>f v'. field_validator h k = Some f \<and> f v = Inr v' \<and> map_of out k = Some v'"
  using assms
proof (induction ev arbitrary: out)
  case Nil
  then show ?case by simp
next
  case (Cons p ev)
  obtain k0 v0 where p: "p = (k0, v0)" by (cases p)
  obtain issues out0 where r: "validate_items h ev = (issues, out0)"
    by (cases "validate_items h ev")
  from Cons.prems(1) p r obtain f v0' where
    f: "field_validator h k0 = Some f" "f v0 = Inr v0'" and
    iss: "issues = []" and out: "out = (k0, v0') # out0"
    by (auto split: option.splits sum.splits)
  show ?case
  proof (cases "k = k0")
    case True
    with Cons.prems(2) p have "v = v0" by simp
    with True f out show ?thesis by simp
  next
    case False
    with Cons.prems(2) p have "map_of ev k = Some v" by simp
    from Cons.IH [OF r [unfolded iss] this] False out show ?thesis by simp
  qed
qed

lemma event_fields_Inr:
  assumes "event_fields h ev = Inr out"
  shows "validate_items h ev = ([], out)
     \<and> map_of ev EVENT_START \<noteq> None \<and> map_of ev EVENT_END \<noteq> None
     \<and> map_of ev EVENT_SUMMARY \<noteq> None"
  using assms
  by (auto simp: event_fields_def required_keys_def Let_def
      split: prod.splits if_splits)

lemma EVENT_SCHEMA_Inr:
  assumes "EVENT_SCHEMA h ev = Inr valid"
  shows "event_fields h ev = Inr valid"
  using assms validate_Inr
  by (fastforce simp: EVENT_SCHEMA_def has_roborock_interval_def split: sum.splits)

lemma valid_event_datetime:
  assumes "EVENT_SCHEMA h ev = Inr valid"
    and "k = EVENT_START \<or> k = EVENT_END"
    and "map_of (ENTITY_SERVICE_FIELDS h) k = None"
  shows "\<exists>v d. map_of ev k = Some v \<and> cv_datetime h v = Inr d
           \<and> map_of valid k = Some (PDatetime d)"
proof -
  from EVENT_SCHEMA_Inr [OF assms(1)] have ef: "event_fields h ev = Inr valid" .
  from event_fields_Inr [OF ef] assms(2) obtain v where
    vi: "validate_items h ev = ([], valid)" and v: "map_of ev k = Some v" by auto
  from validate_items_lookup [OF vi v] obtain f v' where
    f: "field_validator h k = Some f" "f v = Inr v'" "map_of valid k = Some v'" by blast
  from f(1) assms(2,3) have "f = (\<lambda>v. map_sum id PDatetime (cv_datetime h v))"
    by (auto simp: field_validator_def)
  with f(2) obtain d where "cv_datetime h v = Inr d" "v' = PDatetime d"
    by (cases "cv_datetime h v") auto
  with v f(3) show ?thesis by blast
qed

text \<open>
  Claim C3. When the schema rejects the event payload, in its field stage or in the
  interval validator, \<^verbatim>\<open>async_update_event\<close> raises that error to the caller and the
  log of sent commands is as it was: no remote command is issued.
\<close>

theorem async_update_event_invalid:
  assumes "EVENT_SCHEMA h event_in = Inl e"
  shows "async_update_event h self u event_in log = (Inl e, log)"
  using assms by (simp add: async_update_event_def)

theorem async_update_event_invalid_witness:
  "EVENT_SCHEMA example_host
     [(''dtstart'', PDatetime (at_time 22 15 30)), (''dtend'', PDatetime (at_time 6 5 0)),
      (''summary'', PStr ''Quiet'')]
   = Inl (Invalid
       ''Unexpected start datetime 2024-05-01 22:15:30 use 2024-05-01 22:15:00 instead'')
   \<and> async_update_event example_host example_calendar ''dnd_timer''
     [(''dtstart'', PDatetime (at_time 22 15 30)), (''dtend'', PDatetime (at_time 6 5 0)),
      (''summary'', PStr ''Quiet'')] []
   = (Inl (Invalid
       ''Unexpected start datetime 2024-05-01 22:15:30 use 2024-05-01 22:15:00 instead''), [])
   \<and> EVENT_SCHEMA example_host
     [(''dtstart'', PDatetime (at_time 22 15 0)), (''dtend'', PDatetime (at_time 6 5 0))]
   = Inl (SchemaError [required_key_not_provided ''summary''])
   \<and> async_update_event example_host example_calendar ''dnd_timer''
     [(''dtstart'', PDatetime (at_time 22 15 0)), (''dtend'', PDatetime (at_time 6 5 0))] []
   = (Inl (SchemaError [required_key_not_provided ''summary'']), [])"
proof -
  have a: "EVENT_SCHEMA example_host
     [(''dtstart'', PDatetime (at_time 22 15 30)), (''dtend'', PDatetime (at_time 6 5 0)),
      (''summary'', PStr ''Quiet'')]
   = Inl (Invalid
       ''Unexpected start datetime 2024-05-01 22:15:30 use 2024-05-01 22:15:00 instead'')"
    by (simp add: EVENT_SCHEMA_def event_fields_def field_validator_def required_keys_def
        has_roborock_interval_def validate_def dict_get_def str_datetime_def example_defs)
  have b: "EVENT_SCHEMA example_host
     [(''dtstart'', PDatetime (at_time 22 15 0)), (''dtend'', PDatetime (at_time 6 5 0))]
   = Inl (SchemaError [required_key_not_provided ''summary''])"
    by (simp add: EVENT_SCHEMA_def event_fields_def field_validator_def required_keys_def
        example_defs)
  show ?thesis
    using a b async_update_event_invalid [OF a, of example_calendar "''dnd_timer''" "[]"]
      async_update_event_invalid [OF b, of example_calendar "''dnd_timer''" "[]"]
    by simp
qed

text \<open>
  Claim C5. When the schema accepts the event payload (and the host's entity service
  fields do not redefine the start and end keys), the accepted event holds datetimes at
  the start and end keys, the coerced start and end of the payload, and
  \<^verbatim>\<open>async_update_event\<close> issues exactly one remote command: the log grows by the
  update command of the timer kind with the arguments
  \<^verbatim>\<open>[start.hour, start.minute, end.hour, end.minute]\<close>. In the example start 22:15 and
  end 06:05 give the arguments \<open>[22, 15, 6, 5]\<close>.
\<close>

theorem async_update_event_valid:
  assumes "EVENT_SCHEMA h event_in = Inr valid_event"
    and "map_of (ENTITY_SERVICE_FIELDS h) EVENT_START = None"
    and "map_of (ENTITY_SERVICE_FIELDS h) EVENT_END = None"
  shows "\<exists>sv ev st en.
      map_of event_in EVENT_START = Some sv \<and> cv_datetime h sv = Inr st
    \<and> map_of event_in EVENT_END = Some ev \<and> cv_datetime h ev = Inr en
    \<and> map_of valid_event EVENT_START = Some (PDatetime st)
    \<and> map_of valid_event EVENT_END = Some (PDatetime en)
    \<and> snd (async_update_event h self u event_in log) =
        log @ [\<lparr>command = update_command (entity_description self),
                 params = Some [hour st, minute st, hour en, minute en],
                 return_type = base_class (entity_description self)\<rparr>]"
proof -
  from valid_event_datetime [OF assms(1) _ assms(2)] obtain sv st where
    s: "map_of event_in EVENT_START = Some sv" "cv_datetime h sv = Inr st"
       "map_of valid_event EVENT_START = Some (PDatetime st)" by blast
  from valid_event_datetime [OF assms(1) _ assms(3)] obtain ev en where
    e: "map_of event_in EVENT_END = Some ev" "cv_datetime h ev = Inr en"
       "map_of valid_event EVENT_END = Some (PDatetime en)" by blast
  have "snd (async_update_event h self u event_in log) =
        log @ [\<lparr>command = update_command (entity_description self),
                 params = Some [hour st, minute st, hour en, minute en],
                 return_type = base_class (entity_description self)\<rparr>]"
    using assms(1) s(3) e(3)
    by (simp add: async_update_event_def time_args_def send_def send_command_def Let_def
        split: sum.splits)
  with s e show ?thesis by blast
qed

theorem async_update_event_valid_witness:
  "EVENT_SCHEMA example_host
     [(''dtstart'', PDatetime (at_time 22 15 0)), (''dtend'', PDatetime (at_time 6 5 0)),
      (''summary'', PStr ''Quiet'')]
   = Inr [(''dtstart'', PDatetime (at_time 22 15 0)), (''dtend'', PDatetime (at_time 6 5 0)),
      (''summary'', PStr ''Quiet'')]
   \<and> map_of (ENTITY_SERVICE_FIELDS example_host) EVENT_START = None
   \<and> map_of (ENTITY_SERVICE_FIELDS example_host) EVENT_END = None
   \<and> async_update_event example_host example_calendar ''dnd_timer''
     [(''dtstart'', PDatetime (at_time 22 15 0)), (''dtend'', PDatetime (at_time 6 5 0)),
      (''summary'', PStr ''Quiet'')] []
   = (Inr (), [\<lparr>command = SET_DND_TIMER, params = Some [22, 15, 6, 5],
                 return_type = DnDTimer\<rparr>])"
proof -
  have a: "EVENT_SCHEMA example_host
     [(''dtstart'', PDatetime (at_time 22 15 0)), (''dtend'', PDatetime (at_time 6 5 0)),
      (''summary'', PStr ''Quiet'')]
   = Inr [(''dtstart'', PDatetime (at_time 22 15 0)), (''dtend'', PDatetime (at_time 6 5 0)),
      (''summary'', PStr ''Quiet'')]"
    by (simp add: EVENT_SCHEMA_def event_fields_def field_validator_def required_keys_def
        has_roborock_interval_def validate_def dict_get_def example_defs)
  have b: "map_of (ENTITY_SERVICE_FIELDS example_host) EVENT_START = None"
    "map_of (ENTITY_SERVICE_FIELDS example_host) EVENT_END = None"
    by (simp_all add: example_defs)
  have c: "fst (async_update_event example_host example_calendar ''dnd_timer''
     [(''dtstart'', PDatetime (at_time 22 15 0)), (''dtend'', PDatetime (at_time 6 5 0)),
      (''summary'', PStr ''Quiet'')] []) = Inr ()"
    unfolding async_update_event_def a
    by (simp add: time_args_def send_def send_command_def example_defs)
  from async_update_event_valid [OF a b, of example_calendar "''dnd_timer''" "[]"]
  have "snd (async_update_event example_host example_calendar ''dnd_timer''
     [(''dtstart'', PDatetime (at_time 22 15 0)), (''dtend'', PDatetime (at_time 6 5 0)),
      (''summary'', PStr ''Quiet'')] [])
    = [\<lparr>command = SET_DND_TIMER, params = Some [22, 15, 6, 5], return_type = DnDTimer\<rparr>]"
    by (auto simp: example_defs)
  with a b c show ?thesis by (simp add: prod_eq_iff)
qed

text \<open>
  Claim C9. For every pair of times, on every host, the update service raises a schema
  error and the log of sent commands is as it was: the payload it builds has the keys
  \<^verbatim>\<open>dtstart\<close> and \<^verbatim>\<open>dtend\<close> only, so the required summary is among the findings of
  the field stage.
\<close>

theorem async_update_event_service_fails:
  "\<exists>issues. async_update_event_service h self dtstart dtend log = (Inl (SchemaError issues), log)
     \<and> required_key_not_provided EVENT_SUMMARY \<in> set issues"
proof -
  let ?ev = "[(''dtstart'', PTime dtstart), (''dtend'', PTime dtend)]"
  obtain issues out where vi: "validate_items h ?ev = (issues, out)"
    by (cases "validate_items h ?ev")
  have "map_of ?ev EVENT_SUMMARY = None" by (simp add: EVENT_SUMMARY_def)
  then have "event_fields h ?ev = Inl (SchemaError (issues @ map required_key_not_provided
      (filter (\<lambda>k. map_of ?ev k = None) required_keys)))"
    and "required_key_not_provided EVENT_SUMMARY \<in> set (issues @ map required_key_not_provided
      (filter (\<lambda>k. map_of ?ev k = None) required_keys))"
    using vi by (simp_all add: event_fields_def required_keys_def Let_def)
  then show ?thesis
    by (auto simp: async_update_event_service_def async_update_event_def EVENT_SCHEMA_def)
qed

theorem async_update_event_service_fails_witness:
  "async_update_event_service example_host example_calendar (Time 22 0 0 0) (Time 6 0 0 0) []
   = (Inl (SchemaError [invalid_value ''dtstart'' ''Invalid datetime'',
        invalid_value ''dtend'' ''Invalid datetime'',
        required_key_not_provided ''summary'']), [])"
  using async_update_event_service_fails [of example_host example_calendar
      "Time 22 0 0 0" "Time 6 0 0 0" "[]"]
  by (simp add: async_update_event_service_def async_update_event_def EVENT_SCHEMA_def
      event_fields_def field_validator_def required_keys_def example_defs)


section \<open>Properties of the event projection\<close>

text \<open>
  For every host: a timer that is not enabled gives no event and the constructor is not
  called; an enabled timer gives what the host's constructor makes of the keyword
  arguments, which are the timer's start and end times as they are, the name of the
  timer kind as summary and description, the location \<^verbatim>\<open>Home\<close>, the key of the timer
  kind as uid and recurrence id, and the rule \<^verbatim>\<open>FREQ=DAILY\<close>.
\<close>

lemma event_result:
  assumes "event_value self = Some t"
  shows "event h self =
     (if enabled t then
        (case new_CalendarEvent h
                \<lparr>start = PTime (start_time t), end' = PTime (end_time t),
                 summary = name (entity_description self),
                 description = name (entity_description self),
                 location = ''Home'',
                 recurrence_id = key (entity_description self),
                 rrule = ''FREQ=DAILY'',
                 uid = key (entity_description self)\<rparr> of
           Inl e \<Rightarrow> Inl e
         | Inr ce \<Rightarrow> Inr (Some ce))
      else Inr None)"
  using assms by (simp add: event_def)

lemma event_disabled_example:
  "event example_host (example_calendar\<lparr>event_value :=
       Some \<lparr>enabled = False, start_time = Time 8 0 0 0, end_time = Time 8 30 0 0\<rparr>\<rparr>)
     = Inr None"
  by (simp add: event_def example_defs)


text \<open>
  For every host: the list of events is the outcome of the event property, an event in
  a one-element list, no event as the empty list, an error as the error; and the range
  bounds do not matter.
\<close>

lemma async_get_events_result:
  "async_get_events h self hass start_date end_date =
     (case event h self of
        Inl e \<Rightarrow> Inl e
      | Inr None \<Rightarrow> Inr []
      | Inr (Some ev) \<Rightarrow> Inr [ev])"
  by (simp add: async_get_events_def)

lemma async_get_events_range:
  "async_get_events h self hass start_date end_date =
     async_get_events h self hass' start_date' end_date'"
  by (simp add: async_get_events_def)

lemma async_get_events_disabled_example:
  "async_get_events example_host (example_calendar\<lparr>event_value :=
       Some \<lparr>enabled = False, start_time = Time 8 0 0 0, end_time = Time 8 30 0 0\<rparr>\<rparr>)
     () (at_time 0 0 0) (at_time 1 0 0) = Inr []"
  by (simp add: async_get_events_def event_def example_defs)



section \<open>Properties of setup\<close>

text \<open>
  The inner loop, for any table of timer kinds: when no fetch raises anything but the
  device error, the loop ends normally, every kind has been fetched once, in order, and
  the entities added are those of the kinds whose fetch returned a timer.
\<close>

lemma add_calendars_result:
  assumes "\<forall>p \<in> set kinds. \<forall>e.
      api c \<lparr>command = get_command (snd p), params = None, return_type = base_class (snd p)\<rparr>
        = Inl e \<longrightarrow> e = RoborockException"
  shows "add_calendars c info uniq kinds entities log =
     (Inr (entities @ List.map_filter
        (\<lambda>(sensor, d).
           case api c \<lparr>command = get_command d, params = None, return_type = base_class d\<rparr> of
             Inr (Some t) \<Rightarrow> Some (init_RoborockCalendar (sensor @ ''_'' @ uniq) info c d t)
           | _ \<Rightarrow> None) kinds),
      log @ map (\<lambda>(sensor, d).
        \<lparr>command = get_command d, params = None, return_type = base_class d\<rparr>) kinds)"
  using assms
proof (induction kinds arbitrary: entities log)
  case Nil
  then show ?case by (simp add: List.map_filter_simps)
next
  case (Cons p kinds)
  obtain sensor d where p: "p = (sensor, d)" by (cases p)
  let ?q = "\<lparr>command = get_command d, params = None, return_type = base_class d\<rparr>"
  have IH: "\<And>entities log. add_calendars c info uniq kinds entities log =
     (Inr (entities @ List.map_filter
        (\<lambda>(sensor, d).
           case api c \<lparr>command = get_command d, params = None, return_type = base_class d\<rparr> of
             Inr (Some t) \<Rightarrow> Some (init_RoborockCalendar (sensor @ ''_'' @ uniq) info c d t)
           | _ \<Rightarrow> None) kinds),
      log @ map (\<lambda>(sensor, d).
        \<lparr>command = get_command d, params = None, return_type = base_class d\<rparr>) kinds)"
    using Cons.IH Cons.prems by simp
  show ?case
  proof (cases "api c ?q")
    case (Inl e)
    with Cons.prems p have "e = RoborockException" by simp
    with Inl p show ?thesis
      by (simp add: IH send_command_def suppress_RoborockException_def
          List.map_filter_simps Let_def)
  next
    case (Inr r)
    with p show ?thesis
      by (cases r)
        (simp_all add: IH send_command_def suppress_RoborockException_def
          List.map_filter_simps Let_def)
  qed
qed

lemma setup_coordinators_result:
  assumes "\<forall>c \<in> set cs. \<exists>info. data c = Some info
      \<and> model info \<in> set (MODELS_VACUUM_WITH_MOP h)"
    and "\<forall>c \<in> set cs. \<forall>q e. api c q = Inl e \<longrightarrow> e = RoborockException"
  shows "setup_coordinators h cs entities log =
     (Inr (Some (entities @ concat (map (\<lambda>c. case data c of
        None \<Rightarrow> []
      | Some info \<Rightarrow> List.map_filter
        (\<lambda>(sensor, d).
           case api c \<lparr>command = get_command d, params = None, return_type = base_class d\<rparr> of
             Inr (Some t) \<Rightarrow>
               Some (init_RoborockCalendar (sensor @ ''_'' @ slugify h (duid info)) info c d t)
           | _ \<Rightarrow> None) VACUUM_CALENDARS) cs))),
      log @ concat (map (\<lambda>c. map (\<lambda>(sensor, d).
        \<lparr>command = get_command d, params = None, return_type = base_class d\<rparr>)
          VACUUM_CALENDARS) cs))"
  using assms
proof (induction cs arbitrary: entities log)
  case Nil
  then show ?case by simp
next
  case (Cons c cs)
  from Cons.prems(1) obtain info where
    info: "data c = Some info" "model info \<in> set (MODELS_VACUUM_WITH_MOP h)" by auto
  have "\<forall>p \<in> set VACUUM_CALENDARS. \<forall>e.
      api c \<lparr>command = get_command (snd p), params = None, return_type = base_class (snd p)\<rparr>
        = Inl e \<longrightarrow> e = RoborockException"
    using Cons.prems(2) by simp
  note ac = add_calendars_result [OF this, of info "slugify h (duid info)" entities log]
  have IH: "\<And>entities log. setup_coordinators h cs entities log =
     (Inr (Some (entities @ concat (map (\<lambda>c. case data c of
        None \<Rightarrow> []
      | Some info \<Rightarrow> List.map_filter
        (\<lambda>(sensor, d).
           case api c \<lparr>command = get_command d, params = None, return_type = base_class d\<rparr> of
             Inr (Some t) \<Rightarrow>
               Some (init_RoborockCalendar (sensor @ ''_'' @ slugify h (duid info)) info c d t)
           | _ \<Rightarrow> None) VACUUM_CALENDARS) cs))),
      log @ concat (map (\<lambda>c. map (\<lambda>(sensor, d).
        \<lparr>command = get_command d, params = None, return_type = base_class d\<rparr>)
          VACUUM_CALENDARS) cs))"
    using Cons.IH Cons.prems by simp
  show ?case using info by (simp add: ac IH)
qed

text \<open>
  Setup of coordinators that all have device information of a model with mop, whose
  fetches raise nothing but the device or communication error: setup raises no error;
  for every coordinator every timer kind of the table is fetched, in order (the log
  grows by one fetch per coordinator and kind); and the entities handed to
  \<^verbatim>\<open>async_add_entities\<close> are exactly those of the kinds whose fetch returned a timer.
  A kind whose fetch raised the device error or returned \<^verbatim>\<open>None\<close> gets no entity and
  does not stop the kinds after it.
\<close>

lemma async_setup_entry_skips:
  assumes "\<forall>c \<in> set cs. \<exists>info. data c = Some info
      \<and> model info \<in> set (MODELS_VACUUM_WITH_MOP h)"
    and "\<forall>c \<in> set cs. \<forall>q e. api c q = Inl e \<longrightarrow> e = RoborockException"
  shows "async_setup_entry h cs log =
     (Inr (Some (concat (map (\<lambda>c. case data c of
        None \<Rightarrow> []
      | Some info \<Rightarrow> List.map_filter
        (\<lambda>(sensor, d).
           case api c \<lparr>command = get_command d, params = None, return_type = base_class d\<rparr> of
             Inr (Some t) \<Rightarrow>
               Some (init_RoborockCalendar (sensor @ ''_'' @ slugify h (duid info)) info c d t)
           | _ \<Rightarrow> None) VACUUM_CALENDARS) cs))),
      log @ concat (map (\<lambda>c. map (\<lambda>(sensor, d).
        \<lparr>command = get_command d, params = None, return_type = base_class d\<rparr>)
          VACUUM_CALENDARS) cs))"
  unfolding async_setup_entry_def
  using setup_coordinators_result [OF assms, of "[]" log] by simp

lemma async_setup_entry_skips_example:
  "async_setup_entry example_host [example_coordinator, silent_coordinator] []
   = (Inr (Some [example_calendar]),
      [\<lparr>command = GET_VALLEY_ELECTRICITY_TIMER, params = None,
         return_type = ValleyElectricityTimer\<rparr>,
       \<lparr>command = GET_DND_TIMER, params = None, return_type = DnDTimer\<rparr>,
       \<lparr>command = GET_VALLEY_ELECTRICITY_TIMER, params = None,
         return_type = ValleyElectricityTimer\<rparr>,
       \<lparr>command = GET_DND_TIMER, params = None, return_type = DnDTimer\<rparr>])"
  using async_setup_entry_skips [of "[example_coordinator, silent_coordinator]" example_host "[]"]
  by (simp add: example_defs VACUUM_CALENDARS_def List.map_filter_simps)

text \<open>
  Claim C8 says that during setup a timer kind whose fetch raises the device error or
  returns \<^verbatim>\<open>None\<close> is skipped while the kinds that are supported still produce
  entities. Here the first device has a mop; its valley electricity fetch raises the
  device error and its do-not-disturb fetch returns a timer, so an entity is built for
  it. The second device is of a model without mop: the loop executes \<^verbatim>\<open>return\<close>
  there, \<^verbatim>\<open>async_add_entities\<close> is never called, and the supported do-not-disturb
  kind of the first device gets no entity. Without the second device the entity is
  registered (\<open>async_setup_entry_skips_example\<close>).
\<close>

theorem async_setup_entry_returns_early:
  "async_setup_entry example_host [example_coordinator, plain_coordinator] []
   = (Inr None,
      [\<lparr>command = GET_VALLEY_ELECTRICITY_TIMER, params = None,
         return_type = ValleyElectricityTimer\<rparr>,
       \<lparr>command = GET_DND_TIMER, params = None, return_type = DnDTimer\<rparr>])"
  by (simp add: async_setup_entry_def send_command_def suppress_RoborockException_def
      example_defs VACUUM_CALENDARS_def)

end
